theory Spec2Isabelle
  imports Main "HOL-Library.AList" "HOL-Library.Sublist" "HOL-Library.Multiset"
begin

section \<open>Batch conversion of HEIC and CR2 images to PNG\<close>

text \<open>
  The development embeds \<^verbatim>\<open>convert_images.py\<close>: the two conversion adapters
  \<^verbatim>\<open>convert_heic_to_png\<close> and \<^verbatim>\<open>convert_cr2_to_png\<close>, and the pipeline
  \<^verbatim>\<open>process_directory\<close> (create the output root, discover the files, compute one
  output path per file and create its parent, run the adapter on every pair in a thread
  pool, count the results). The scripts under \<^verbatim>\<open>unic_codes\<close> are the same pipeline
  with the conversion type fixed.

  The library calls of the source are modelled by what they do in Python 3.11:
  \<^item> a \<^verbatim>\<open>pathlib.Path\<close> is the list of its components;
  \<^item> the file system is a tree of named entries, read by \<^verbatim>\<open>Path.glob\<close> and changed by
    \<^verbatim>\<open>Path.mkdir\<close>;
  \<^item> the platform is a parameter where the program's behaviour depends on it: the
    flavour of \<^verbatim>\<open>pathlib\<close> (POSIX or Windows) decides how glob patterns compare letters
    and which separator \<^verbatim>\<open>str(path)\<close> writes;
  \<^item> an exception is a value; a function that may raise returns it;
  \<^item> the image codecs (Pillow, Wand) are parameters: each of their calls returns,
    raises an exception of class \<^verbatim>\<open>Exception\<close> with a message, or raises one outside
    that class;
  \<^item> standard output is a parameter where an adapter prints a file name: the lines it
    can encode.
\<close>

subsection \<open>Paths\<close>

type_synonym path = "string list"

text \<open>
  The exceptions of a run. \<open>BaseException\<close> stands for an exception that is not of class
  \<^verbatim>\<open>Exception\<close> (\<^verbatim>\<open>KeyboardInterrupt\<close>, \<^verbatim>\<open>SystemExit\<close>), with its name.
\<close>

datatype exn =
    FileExistsError path
  | NotADirectoryError path
  | PermissionError path
  | ValueError string
  | UnicodeEncodeError string
  | BaseException string

text \<open>The two flavours of \<^verbatim>\<open>pathlib\<close>.\<close>

datatype flavour = PosixFlavour | WindowsFlavour

fun sep :: "flavour \<Rightarrow> string" where
  "sep PosixFlavour = ''/''"
| "sep WindowsFlavour = [CHR 0x5C]"

text \<open>\<^verbatim>\<open>str(path)\<close>: the components joined by the separator.\<close>

fun path_str :: "flavour \<Rightarrow> path \<Rightarrow> string" where
  "path_str fl [] = ''.''"
| "path_str fl [c] = c"
| "path_str fl (c # d # cs) = c @ sep fl @ path_str fl (d # cs)"

text \<open>\<^verbatim>\<open>name.rfind(c)\<close>: the index of the last occurrence, if there is one.\<close>

fun rfind :: "char \<Rightarrow> string \<Rightarrow> nat option" where
  "rfind c [] = None"
| "rfind c (x # xs) =
     (case rfind c xs of
        Some i \<Rightarrow> Some (Suc i)
      | None \<Rightarrow> if x = c then Some 0 else None)"

text \<open>
  \<^verbatim>\<open>PurePath.suffix\<close>: the name from its last dot on, unless that dot is the first or
  the last character of the name (\<^verbatim>\<open>0 < i < len(name) - 1\<close>).
\<close>

definition path_suffix :: "string \<Rightarrow> string" where
  "path_suffix name =
     (case rfind (CHR ''.'') name of
        None \<Rightarrow> []
      | Some i \<Rightarrow> if 0 < i \<and> Suc i < length name then drop i name else [])"


text \<open>
  \<^verbatim>\<open>PurePath.with_suffix(suffix)\<close>: raises \<^verbatim>\<open>ValueError\<close> on a malformed suffix or
  an empty name; otherwise the suffix is appended to a name that has none and replaces
  the old one of a name that has one. (The separator looked for in the suffix is the
  one of POSIX; the Windows flavour also refuses a backslash. The program's suffix
  \<^verbatim>\<open>.png\<close> has neither.)
\<close>

definition with_suffix :: "path \<Rightarrow> string \<Rightarrow> exn + path" where
  "with_suffix p sfx =
     (if CHR ''/'' \<in> set sfx then Inl (ValueError ''Invalid suffix'')
      else if (sfx \<noteq> [] \<and> hd sfx \<noteq> CHR ''.'') \<or> sfx = ''.'' then Inl (ValueError ''Invalid suffix'')
      else if p = [] \<or> last p = [] then Inl (ValueError ''empty name'')
      else
        let name = last p; old_suffix = path_suffix name
        in if old_suffix = [] then Inr (butlast p @ [name @ sfx])
           else Inr (butlast p @ [take (length name - length old_suffix) name @ sfx]))"

text \<open>
  \<^verbatim>\<open>PurePath.relative_to(other)\<close>: the components after \<^verbatim>\<open>other\<close>; raises
  \<^verbatim>\<open>ValueError\<close> when the path does not start with \<^verbatim>\<open>other\<close>.
\<close>

definition relative_to :: "path \<Rightarrow> path \<Rightarrow> exn + path" where
  "relative_to p other =
     (if prefix other p then Inr (drop (length other) p)
      else Inl (ValueError ''not in the subpath''))"

text \<open>
  The output path of one discovered file, as the loop body of \<^verbatim>\<open>process_directory\<close>
  computes it:
  \<^verbatim>\<open>relative_path = file_path.relative_to(input_dir)\<close>,
  \<^verbatim>\<open>output_path = Path(output_dir) / relative_path.with_suffix('.png')\<close>.
\<close>

definition output_path_of :: "path \<Rightarrow> path \<Rightarrow> path \<Rightarrow> exn + path" where
  "output_path_of input_dir output_dir file_path =
     (case relative_to file_path input_dir of
        Inl e \<Rightarrow> Inl e
      | Inr relative_path \<Rightarrow>
          (case with_suffix relative_path ''.png'' of
             Inl e \<Rightarrow> Inl e
           | Inr r \<Rightarrow> Inr (output_dir @ r)))"



subsection \<open>The file system\<close>

text \<open>
  A node is a regular file, a directory with named entries, or a symbolic link, given
  with the tree it points to. A directory carries whether it may be listed (read
  permission): listing one that may not raises \<^verbatim>\<open>PermissionError\<close>. A path is followed
  from the node at which the relative paths of the program start, through symbolic
  links. Names are looked up exactly, as on a case-sensitive file system; on a
  case-insensitive one no two entries of a directory differ in case only.
\<close>

datatype node = File | Dir bool "(string \<times> node) list" | Link node

fun lookup :: "node \<Rightarrow> path \<Rightarrow> node option" where
  "lookup (Link n) p = lookup n p"
| "lookup File [] = Some File"
| "lookup (Dir listable es) [] = Some (Dir listable es)"
| "lookup File (c # cs) = None"
| "lookup (Dir listable es) (c # cs) =
     (case map_of es c of None \<Rightarrow> None | Some n \<Rightarrow> lookup n cs)"

definition is_dir :: "node \<Rightarrow> path \<Rightarrow> bool" where
  "is_dir fs p = (case lookup fs p of Some (Dir listable es) \<Rightarrow> True | _ \<Rightarrow> False)"


text \<open>
  \<^verbatim>\<open>Path.mkdir(parents=True, exist_ok=True)\<close> on the path \<open>p\<close> below the node, which
  itself sits at \<open>here\<close>. A directory that exists is left as it is; a missing one is
  created, unless the system refuses (\<open>deny\<close>: no permission, read-only or full
  device); a regular file in the way raises. The result is the exception raised, if
  any, and the file system as the call leaves it (the parents created before a
  failure stay).
\<close>

fun mkdir :: "(path \<Rightarrow> bool) \<Rightarrow> path \<Rightarrow> node \<Rightarrow> path \<Rightarrow> exn option \<times> node" where
  "mkdir deny here (Link n) p =
     (case mkdir deny here n p of (r, n') \<Rightarrow> (r, Link n'))"
| "mkdir deny here File [] = (Some (FileExistsError here), File)"
| "mkdir deny here (Dir listable es) [] = (None, Dir listable es)"
| "mkdir deny here File (c # cs) = (Some (NotADirectoryError here), File)"
| "mkdir deny here (Dir listable es) (c # cs) =
     (case map_of es c of
        Some n \<Rightarrow>
          (case mkdir deny (here @ [c]) n cs of
             (r, n') \<Rightarrow> (r, Dir listable (AList.update c n' es)))
      | None \<Rightarrow>
          if deny (here @ [c]) then (Some (PermissionError (here @ [c])), Dir listable es)
          else
            (case mkdir deny (here @ [c]) (Dir True []) cs of
               (r, n') \<Rightarrow> (r, Dir listable (AList.update c n' es))))"

text \<open>
  The paths of the entries that \<^verbatim>\<open>**/\<close> followed by a name pattern looks at, relative
  to the node it starts from: the entries of that directory and of every directory
  below it that the walk enters. The walk does not enter a symbolic link
  (\<^verbatim>\<open>entry.is_dir(follow_symlinks=False)\<close>) and finds nothing in a directory that may
  not be listed (the \<^verbatim>\<open>PermissionError\<close> of \<^verbatim>\<open>scandir\<close> is swallowed); such an entry is
  itself still looked at.
\<close>

fun descendants :: "node \<Rightarrow> path list" where
  "descendants File = []"
| "descendants (Link n) = []"
| "descendants (Dir listable es) =
     (if listable
      then concat (map (\<lambda>e. [fst e] # map ((#) (fst e)) (descendants (snd e))) es)
      else [])"


text \<open>
  Matching a name against a shell pattern, as \<^verbatim>\<open>fnmatch.translate\<close> compiles the last
  component of a glob pattern: \<^verbatim>\<open>*\<close> matches any run of characters, \<^verbatim>\<open>?\<close> any one
  character, every other character itself and nothing else. (Bracket classes are not
  modelled; no pattern of the program has one.)
\<close>

fun glob_match :: "string \<Rightarrow> string \<Rightarrow> bool" where
  "glob_match [] s = (s = [])"
| "glob_match (p # ps) [] = (p = CHR ''*'' \<and> glob_match ps [])"
| "glob_match (p # ps) (c # cs) =
     (if p = CHR ''*'' then glob_match ps (c # cs) \<or> glob_match (p # ps) cs
      else (p = CHR ''?'' \<or> p = c) \<and> glob_match ps cs)"

text \<open>
  \<^verbatim>\<open>flavour.compile_pattern\<close>: the POSIX flavour compiles the pattern as it is, the
  Windows flavour with \<^verbatim>\<open>re.IGNORECASE\<close>, under which an ASCII letter matches both of
  its cases.
\<close>

definition lower_char :: "char \<Rightarrow> char" where
  "lower_char c =
     (case map_of (zip ''ABCDEFGHIJKLMNOPQRSTUVWXYZ'' ''abcdefghijklmnopqrstuvwxyz'') c of
        None \<Rightarrow> c
      | Some l \<Rightarrow> l)"

fun compile_pattern :: "flavour \<Rightarrow> string \<Rightarrow> string \<Rightarrow> bool" where
  "compile_pattern PosixFlavour pat name = glob_match pat name"
| "compile_pattern WindowsFlavour pat name =
     glob_match (map lower_char pat) (map lower_char name)"

text \<open>
  \<^verbatim>\<open>Path(input_dir).glob('**/' + pat)\<close>: every entry the walk looks at whose name
  matches \<open>pat\<close>; nothing when the directory does not exist or is a regular file.
\<close>

definition glob :: "flavour \<Rightarrow> node \<Rightarrow> path \<Rightarrow> string \<Rightarrow> path list" where
  "glob fl fs input_dir pat =
     (case lookup fs input_dir of
        None \<Rightarrow> []
      | Some n \<Rightarrow>
          map ((@) input_dir) (filter (\<lambda>r. compile_pattern fl pat (last r)) (descendants n)))"

text \<open>The extension list and the discovery loop of \<^verbatim>\<open>process_directory\<close>.\<close>

definition extensions :: "string \<Rightarrow> string list" where
  "extensions conversion_type =
     (if conversion_type = ''HEIC'' then [''.heic'', ''.HEIC'', ''.heif'', ''.HEIF'']
      else [''.cr2'', ''.CR2''])"

definition discover :: "flavour \<Rightarrow> node \<Rightarrow> path \<Rightarrow> string \<Rightarrow> path list" where
  "discover fl fs input_dir conversion_type =
     concat (map (\<lambda>ext. glob fl fs input_dir (CHR ''*'' # ext)) (extensions conversion_type))"

subsection \<open>The conversion adapters\<close>

text \<open>
  The codec libraries are outside the program. A call of one returns its value, raises
  an exception of class \<^verbatim>\<open>Exception\<close>, of which only the message \<^verbatim>\<open>str(e)\<close> is used,
  or raises an exception outside that class, given by its name.
\<close>

datatype 'a outcome = Returns 'a | Raises string | RaisesOther string

text \<open>
  Pillow: \<^verbatim>\<open>Image.open(path)\<close> and \<^verbatim>\<open>img.save(path, 'PNG', optimize=True)\<close>.
\<close>

record 'i pillow =
  image_open :: "string \<Rightarrow> 'i outcome"
  image_save :: "'i \<Rightarrow> string \<Rightarrow> string \<Rightarrow> bool \<Rightarrow> unit outcome"

text \<open>
  Wand: \<^verbatim>\<open>Image(filename=path)\<close>, the setters of \<^verbatim>\<open>format\<close>,
  \<^verbatim>\<open>compression_quality\<close> and \<^verbatim>\<open>alpha_channel\<close>, the getter of
  \<^verbatim>\<open>alpha_channel\<close>, and \<^verbatim>\<open>img.save(filename=path)\<close>.
\<close>

record 'w wand =
  wand_open :: "string \<Rightarrow> 'w outcome"
  set_format :: "'w \<Rightarrow> string \<Rightarrow> 'w outcome"
  set_compression_quality :: "'w \<Rightarrow> nat \<Rightarrow> 'w outcome"
  get_alpha_channel :: "'w \<Rightarrow> bool outcome"
  set_alpha_channel :: "'w \<Rightarrow> string \<Rightarrow> 'w outcome"
  wand_save :: "'w \<Rightarrow> string \<Rightarrow> unit outcome"

text \<open>
  An adapter returns its boolean and the lines it printed, or raises. The handler of
  both adapters is
  \<^verbatim>\<open>print(f"Erro ao converter {input_path}: {str(e)}"); return False\<close>;
  its \<^verbatim>\<open>print\<close> raises \<^verbatim>\<open>UnicodeEncodeError\<close> for a line that standard output cannot
  encode (\<open>encodable\<close> holds of the lines it can).
\<close>

type_synonym conversion = "exn + bool \<times> string list"

definition error_line :: "string \<Rightarrow> string \<Rightarrow> string" where
  "error_line input_path e = ''Erro ao converter '' @ input_path @ '': '' @ e"

definition conversion_error :: "(string \<Rightarrow> bool) \<Rightarrow> string \<Rightarrow> string \<Rightarrow> conversion" where
  "conversion_error encodable input_path e =
     (if encodable (error_line input_path e) then Inr (False, [error_line input_path e])
      else Inl (UnicodeEncodeError (error_line input_path e)))"

text \<open>
  One library call inside \<^verbatim>\<open>try: ... except Exception as e:\<close> and the rest of the
  block after it: a value goes on, an \<^verbatim>\<open>Exception\<close> goes to the handler, any other
  exception leaves the function.
\<close>

fun attempt ::
  "(string \<Rightarrow> bool) \<Rightarrow> string \<Rightarrow> 'a outcome \<Rightarrow> ('a \<Rightarrow> conversion) \<Rightarrow> conversion" where
  "attempt encodable input_path (Returns x) rest = rest x"
| "attempt encodable input_path (Raises e) rest = conversion_error encodable input_path e"
| "attempt encodable input_path (RaisesOther b) rest = Inl (BaseException b)"

definition convert_heic_to_png ::
  "'i pillow \<Rightarrow> (string \<Rightarrow> bool) \<Rightarrow> string \<Rightarrow> string \<Rightarrow> conversion" where
  "convert_heic_to_png pil encodable input_path output_path =
     attempt encodable input_path (image_open pil input_path) (\<lambda>img.
     attempt encodable input_path (image_save pil img output_path ''PNG'' True) (\<lambda>u.
     Inr (True, [])))"

definition convert_cr2_to_png ::
  "'w wand \<Rightarrow> (string \<Rightarrow> bool) \<Rightarrow> string \<Rightarrow> string \<Rightarrow> conversion" where
  "convert_cr2_to_png wnd encodable input_path output_path =
     attempt encodable input_path (wand_open wnd input_path) (\<lambda>img0.
     attempt encodable input_path (set_format wnd img0 ''png'') (\<lambda>img1.
     attempt encodable input_path (set_compression_quality wnd img1 90) (\<lambda>img2.
     attempt encodable input_path (get_alpha_channel wnd img2) (\<lambda>alpha.
     attempt encodable input_path
       (if alpha then set_alpha_channel wnd img2 ''remove'' else Returns img2) (\<lambda>img3.
     attempt encodable input_path (wand_save wnd img3 output_path) (\<lambda>u.
     Inr (True, [])))))))"

subsection \<open>The pipeline\<close>

text \<open>
  What a run does is recorded as a trace: the directories it asks for, the lines it
  prints, the tasks it submits to the pool and the results it collects from it.
\<close>

datatype event =
    Mkdir path
  | Print string
  | Submit path path
  | Completed path path bool

text \<open>The directories asked for, the tasks submitted and the results collected, in
  the order of the trace.\<close>

fun mkdirs_of :: "event list \<Rightarrow> path list" where
  "mkdirs_of [] = []"
| "mkdirs_of (Mkdir p # es) = p # mkdirs_of es"
| "mkdirs_of (e # es) = mkdirs_of es"

fun submitted_of :: "event list \<Rightarrow> (path \<times> path) list" where
  "submitted_of [] = []"
| "submitted_of (Submit i out # es) = (i, out) # submitted_of es"
| "submitted_of (e # es) = submitted_of es"

fun results_of :: "event list \<Rightarrow> bool list" where
  "results_of [] = []"
| "results_of (Completed i out b # es) = b # results_of es"
| "results_of (e # es) = results_of es"

text \<open>\<^verbatim>\<open>str(n)\<close> of a natural number, for the printed counts.\<close>

definition digit_char :: "nat \<Rightarrow> char" where
  "digit_char d = char_of (48 + d)"

function show_nat :: "nat \<Rightarrow> string" where
  "show_nat n = (if n < 10 then [digit_char n] else show_nat (n div 10) @ [digit_char (n mod 10)])"
  by pat_completeness auto
termination
  by (relation "measure id") auto

declare show_nat.simps [simp del]

text \<open>
  The loop that prepares the tasks. For each file, in order: the output path, the
  \<^verbatim>\<open>mkdir\<close> of its parent, the task. Any exception leaves the loop, and the function,
  at once. The result is the exception if one was raised, the file system, the
  \<^verbatim>\<open>mkdir\<close> calls made and the tasks appended.
\<close>

fun prepare_tasks ::
  "(path \<Rightarrow> bool) \<Rightarrow> path \<Rightarrow> path \<Rightarrow> path list \<Rightarrow> node \<Rightarrow>
     exn option \<times> node \<times> event list \<times> (path \<times> path) list" where
  "prepare_tasks deny input_dir output_dir [] fs = (None, fs, [], [])"
| "prepare_tasks deny input_dir output_dir (file_path # files) fs =
     (case output_path_of input_dir output_dir file_path of
        Inl e \<Rightarrow> (Some e, fs, [], [])
      | Inr output_path \<Rightarrow>
          (case mkdir deny [] fs (butlast output_path) of
             (Some e, fs') \<Rightarrow> (Some e, fs', [Mkdir (butlast output_path)], [])
           | (None, fs') \<Rightarrow>
               (case prepare_tasks deny input_dir output_dir files fs' of
                  (r, fs'', evs, tasks) \<Rightarrow>
                    (r, fs'', Mkdir (butlast output_path) # evs,
                     (file_path, output_path) # tasks))))"

text \<open>
  One finished future: the task, and what its adapter returned or raised.
\<close>

type_synonym finished = "(path \<times> path) \<times> conversion"

text \<open>The lines a task printed, whether or not its future is collected.\<close>

definition printed_events :: "finished \<Rightarrow> event list" where
  "printed_events f = (case snd f of Inl e \<Rightarrow> [] | Inr (success, printed) \<Rightarrow> map Print printed)"

text \<open>
  The aggregation loop over the completed futures:
  \<^verbatim>\<open>success = future.result()\<close>, then
  \<^verbatim>\<open>if success: successful += 1 else: failed += 1\<close>.
  \<^verbatim>\<open>future.result()\<close> raises again what the adapter raised, which ends the loop; the
  pool still lets the other tasks finish. The result is the exception if one was
  raised, the counters, and the events: per collected future its lines and its
  result, then the lines of the tasks not collected.
\<close>

fun aggregate :: "finished list \<Rightarrow> nat \<times> nat \<Rightarrow> exn option \<times> (nat \<times> nat) \<times> event list" where
  "aggregate [] (successful, failed) = (None, (successful, failed), [])"
| "aggregate ((task, Inl e) # rest) (successful, failed) =
     (Some e, (successful, failed), concat (map printed_events rest))"
| "aggregate ((task, Inr (success, printed)) # rest) (successful, failed) =
     (case aggregate rest
             (if success then (successful + 1, failed) else (successful, failed + 1)) of
        (r, counters, evs) \<Rightarrow>
          (r, counters, map Print printed @ Completed (fst task) (snd task) success # evs))"

text \<open>The outcome of a run: the file system, the trace, the exception that ended it
  if one did, and the two counters if the run reached its summary.\<close>

record run =
  final_fs :: node
  trace :: "event list"
  raised :: "exn option"
  tally :: "(nat \<times> nat) option"

text \<open>The lines that \<^verbatim>\<open>process_directory\<close> prints.\<close>

definition none_found_line :: "string \<Rightarrow> string" where
  "none_found_line conversion_type = ''Nenhum arquivo '' @ conversion_type @ '' encontrado!''"

definition found_line :: "nat \<Rightarrow> string \<Rightarrow> string" where
  "found_line n conversion_type =
     ''Encontrados '' @ show_nat n @ '' arquivos '' @ conversion_type"

definition summary_lines :: "nat \<times> nat \<Rightarrow> string list" where
  "summary_lines counters =
     [CHR 0x0A # ''Convers'' @ [CHR 0xC3, CHR 0xA3] @ ''o conclu'' @ [CHR 0xC3, CHR 0xAD] @ ''da!'',
      ''Convertidas com sucesso: '' @ show_nat (fst counters),
      ''Falhas na convers'' @ [CHR 0xC3, CHR 0xA3] @ ''o: '' @ show_nat (snd counters)]"

text \<open>
  The pool: every submitted task is run by the conversion function, on the strings
  of its two paths.
\<close>

definition run_tasks ::
  "flavour \<Rightarrow> (string \<Rightarrow> string \<Rightarrow> conversion) \<Rightarrow> (path \<times> path) list \<Rightarrow> finished list" where
  "run_tasks fl conversion_func conversion_tasks =
     map (\<lambda>t. (t, conversion_func (path_str fl (fst t)) (path_str fl (snd t)))) conversion_tasks"

text \<open>
  \<^verbatim>\<open>process_directory(input_dir, output_dir, conversion_type, max_workers)\<close>, on a
  platform with the flavour \<open>fl\<close> and the standard output \<open>encodable\<close>.
  The pool runs every submitted task; \<open>as_completed\<close> stands for the order in which
  \<^verbatim>\<open>concurrent.futures.as_completed\<close> hands the futures back, which the program does
  not control. \<^verbatim>\<open>ThreadPoolExecutor\<close> raises \<^verbatim>\<open>ValueError\<close> for a pool size that is
  not positive. The images written by the adapters are not part of the tree, which
  tracks directories and the entries found by discovery.
\<close>

definition process_directory ::
  "flavour \<Rightarrow> (string \<Rightarrow> bool) \<Rightarrow> 'i pillow \<Rightarrow> 'w wand \<Rightarrow> (path \<Rightarrow> bool) \<Rightarrow>
     (finished list \<Rightarrow> finished list) \<Rightarrow>
     node \<Rightarrow> path \<Rightarrow> path \<Rightarrow> string \<Rightarrow> int \<Rightarrow> run" where
  "process_directory fl encodable pil wnd deny as_completed
       fs0 input_dir output_dir conversion_type max_workers =
     (case mkdir deny [] fs0 output_dir of
        (Some e, fs1) \<Rightarrow>
          \<lparr>final_fs = fs1, trace = [Mkdir output_dir], raised = Some e, tally = None\<rparr>
      | (None, fs1) \<Rightarrow>
          let files = discover fl fs1 input_dir conversion_type in
          if files = [] then
            \<lparr>final_fs = fs1,
             trace = [Mkdir output_dir, Print (none_found_line conversion_type)],
             raised = None, tally = None\<rparr>
          else
            let found = Print (found_line (length files) conversion_type)
            in
            (case prepare_tasks deny input_dir output_dir files fs1 of
               (Some e, fs2, evs, conversion_tasks) \<Rightarrow>
                 \<lparr>final_fs = fs2, trace = Mkdir output_dir # found # evs,
                  raised = Some e, tally = None\<rparr>
             | (None, fs2, evs, conversion_tasks) \<Rightarrow>
                 let conversion_func =
                       (if conversion_type = ''HEIC'' then convert_heic_to_png pil encodable
                        else convert_cr2_to_png wnd encodable)
                 in
                 if max_workers \<le> 0 then
                   \<lparr>final_fs = fs2, trace = Mkdir output_dir # found # evs,
                    raised = Some (ValueError ''max_workers must be greater than 0''),
                    tally = None\<rparr>
                 else
                   let futures = run_tasks fl conversion_func conversion_tasks;
                       done = as_completed futures
                   in
                   (case aggregate done (0, 0) of
                      (Some e, counters, collected) \<Rightarrow>
                        \<lparr>final_fs = fs2,
                         trace = Mkdir output_dir # found # evs
                           @ map (\<lambda>t. Submit (fst t) (snd t)) conversion_tasks
                           @ collected,
                         raised = Some e, tally = None\<rparr>
                    | (None, counters, collected) \<Rightarrow>
                        \<lparr>final_fs = fs2,
                         trace = Mkdir output_dir # found # evs
                           @ map (\<lambda>t. Submit (fst t) (snd t)) conversion_tasks
                           @ collected
                           @ map Print (summary_lines counters),
                         raised = None, tally = Some counters\<rparr>)))"

subsection \<open>Example platforms, file systems and codecs\<close>

text \<open>A system that refuses no directory.\<close>

definition allow_all :: "path \<Rightarrow> bool" where
  "allow_all p = False"

text \<open>A standard output that encodes every line, and one that encodes ASCII only.\<close>

definition accept_all :: "string \<Rightarrow> bool" where
  "accept_all line = True"







text \<open>Two photos, one of which the decoder of \<open>pil_corrupt\<close> rejects.\<close>

definition fs_pair :: node where
  "fs_pair = Dir True [(''in'', Dir True [(''good.heic'', File), (''bad.heic'', File)])]"

text \<open>
  Two photos, the second in a subdirectory, and an output root in which a regular
  file has the name of that subdirectory.
\<close>

definition fs_blocked :: node where
  "fs_blocked =
     Dir True [(''in'', Dir True [(''y.heic'', File), (''a'', Dir True [(''x.heic'', File)])]),
               (''out'', Dir True [(''a'', File)])]"

text \<open>
  A Pillow that cannot read one file, one that cannot read any, and one whose reading
  is interrupted.
\<close>

definition pil_corrupt :: "unit pillow" where
  "pil_corrupt =
     \<lparr>image_open = (\<lambda>p. if p = ''in/bad.heic'' then Raises ''cannot identify image file''
                          else Returns ()),
      image_save = (\<lambda>img p f opt. Returns ())\<rparr>"



text \<open>A Wand whose every save fails, and one that cannot set the format.\<close>

definition wnd_full :: "unit wand" where
  "wnd_full =
     \<lparr>wand_open = (\<lambda>p. Returns ()),
      set_format = (\<lambda>w f. Returns ()),
      set_compression_quality = (\<lambda>w q. Returns ()),
      get_alpha_channel = (\<lambda>w. Returns True),
      set_alpha_channel = (\<lambda>w a. Returns ()),
      wand_save = (\<lambda>w p. Raises ''no space left on device'')\<rparr>"


section \<open>Auxiliary facts\<close>

subsection \<open>Names, suffixes and patterns\<close>
































subsection \<open>Creating directories\<close>

lemma is_dir_Link: "is_dir (Link n) p = is_dir n p"
  by (simp add: is_dir_def)


lemma is_dir_Dir_Nil: "is_dir (Dir listable es) [] = True"
  by (simp add: is_dir_def)

lemma is_dir_Dir:
  "is_dir (Dir listable es) (c # cs)
     = (case map_of es c of None \<Rightarrow> False | Some k \<Rightarrow> is_dir k cs)"
  by (simp add: is_dir_def split: option.splits)

lemma map_of_update_same: "map_of (AList.update c k es) c = Some k"
  by (simp add: update_conv')

lemma map_of_update_other: "c' \<noteq> c \<Longrightarrow> map_of (AList.update c k es) c' = map_of es c'"
  by (simp add: update_conv')

lemma mkdir_keeps_dirs:
  "is_dir n q \<Longrightarrow> is_dir (snd (mkdir deny here n p)) q"
proof (induction deny here n p arbitrary: q rule: mkdir.induct)
  case (1 deny here n p)
  from "1.prems" have "is_dir n q" by (simp add: is_dir_Link)
  then have "is_dir (snd (mkdir deny here n p)) q" by (rule "1.IH")
  then show ?case by (simp add: is_dir_Link case_prod_beta)
next
  case (2 deny here)
  then show ?case by simp
next
  case (3 deny here listable es)
  then show ?case by simp
next
  case (4 deny here c cs)
  then show ?case by simp
next
  case (5 deny here listable es c cs)
  show ?case
  proof (cases q)
    case Nil
    then show ?thesis
      by (simp add: is_dir_Dir_Nil case_prod_beta split: option.splits)
  next
    case (Cons c' qs)
    note q = this
    show ?thesis
    proof (cases "map_of es c")
      case None
      show ?thesis
      proof (cases "c' = c")
        case True
        with "5.prems" q None show ?thesis by (simp add: is_dir_Dir)
      next
        case False
        with "5.prems" q None show ?thesis
          by (simp add: is_dir_Dir map_of_update_other case_prod_beta)
      qed
    next
      case (Some k)
      show ?thesis
      proof (cases "c' = c")
        case True
        with "5.prems" q Some have "is_dir k qs" by (simp add: is_dir_Dir)
        then have "is_dir (snd (mkdir deny (here @ [c]) k cs)) qs" by (rule "5.IH"(2) [OF Some])
        then show ?thesis using q Some True
          by (simp add: is_dir_Dir map_of_update_same case_prod_beta)
      next
        case False
        with "5.prems" q Some show ?thesis
          by (simp add: is_dir_Dir map_of_update_other case_prod_beta)
      qed
    qed
  qed
qed

lemma mkdir_creates:
  "fst (mkdir deny here n p) = None \<Longrightarrow> is_dir (snd (mkdir deny here n p)) p"
proof (induction deny here n p rule: mkdir.induct)
  case (1 deny here n p)
  from "1.prems" have "fst (mkdir deny here n p) = None" by (simp add: case_prod_beta)
  then have "is_dir (snd (mkdir deny here n p)) p" by (rule "1.IH")
  then show ?case by (simp add: is_dir_Link case_prod_beta)
next
  case (2 deny here)
  then show ?case by simp
next
  case (3 deny here listable es)
  then show ?case by (simp add: is_dir_Dir_Nil)
next
  case (4 deny here c cs)
  then show ?case by simp
next
  case (5 deny here listable es c cs)
  show ?case
  proof (cases "map_of es c")
    case None
    with "5.prems" have nd: "\<not> deny (here @ [c])"
      and ok: "fst (mkdir deny (here @ [c]) (Dir True []) cs) = None"
      by (auto simp: case_prod_beta split: if_splits)
    from "5.IH"(1) [OF None nd ok] show ?thesis using None nd
      by (simp add: is_dir_Dir map_of_update_same case_prod_beta)
  next
    case (Some k)
    with "5.prems" have ok: "fst (mkdir deny (here @ [c]) k cs) = None"
      by (auto simp: case_prod_beta)
    from "5.IH"(2) [OF Some ok] show ?thesis using Some
      by (simp add: is_dir_Dir map_of_update_same case_prod_beta)
  qed
qed


subsection \<open>Preparing the tasks\<close>

lemma prepare_tasks_cases:
  assumes "prepare_tasks deny input_dir output_dir (file_path # files) fs = (r, fs', evs, ts)"
  obtains (path_error) e where "output_path_of input_dir output_dir file_path = Inl e"
      "r = Some e" "fs' = fs" "evs = []" "ts = []"
  | (mkdir_error) out e where "output_path_of input_dir output_dir file_path = Inr out"
      "mkdir deny [] fs (butlast out) = (Some e, fs')" "r = Some e"
      "evs = [Mkdir (butlast out)]" "ts = []"
  | (continue) out fs1 evs2 ts2 where "output_path_of input_dir output_dir file_path = Inr out"
      "mkdir deny [] fs (butlast out) = (None, fs1)"
      "prepare_tasks deny input_dir output_dir files fs1 = (r, fs', evs2, ts2)"
      "evs = Mkdir (butlast out) # evs2" "ts = (file_path, out) # ts2"
proof (cases "output_path_of input_dir output_dir file_path")
  case (Inl e)
  with assms path_error show ?thesis by auto
next
  case (Inr out)
  obtain m fs1 where mk: "mkdir deny [] fs (butlast out) = (m, fs1)"
    by (cases "mkdir deny [] fs (butlast out)")
  show ?thesis
  proof (cases m)
    case (Some e)
    with assms Inr mk mkdir_error show ?thesis by auto
  next
    case None
    obtain r2 fs2 evs2 ts2
      where rec: "prepare_tasks deny input_dir output_dir files fs1 = (r2, fs2, evs2, ts2)"
      by (cases "prepare_tasks deny input_dir output_dir files fs1")
    with assms Inr mk None continue show ?thesis by auto
  qed
qed

lemma prepare_keeps_dirs:
  "prepare_tasks deny input_dir output_dir files fs = (r, fs', evs, ts) \<Longrightarrow> is_dir fs q
     \<Longrightarrow> is_dir fs' q"
proof (induction files arbitrary: fs r fs' evs ts)
  case Nil
  then show ?case by simp
next
  case (Cons file_path files)
  from Cons.prems(1) show ?case
  proof (cases rule: prepare_tasks_cases)
    case (path_error e)
    with Cons.prems(2) show ?thesis by simp
  next
    case (mkdir_error out e)
    from mkdir_keeps_dirs [OF Cons.prems(2), of deny "[]" "butlast out"] mkdir_error(2)
    show ?thesis by simp
  next
    case (continue out fs1 evs2 ts2)
    from mkdir_keeps_dirs [OF Cons.prems(2), of deny "[]" "butlast out"] continue(2)
    have "is_dir fs1 q" by simp
    with continue(3) show ?thesis by (rule Cons.IH)
  qed
qed


lemma prepare_tasks_files:
  "prepare_tasks deny input_dir output_dir files fs = (None, fs', evs, ts)
     \<Longrightarrow> map fst ts = files
         \<and> map (\<lambda>t. Inr (snd t)) ts = map (output_path_of input_dir output_dir) files
         \<and> mkdirs_of evs = map (\<lambda>t. butlast (snd t)) ts"
proof (induction files arbitrary: fs fs' evs ts)
  case Nil
  then show ?case by simp
next
  case (Cons file_path files)
  from Cons.prems(1) show ?case
  proof (cases rule: prepare_tasks_cases)
    case (path_error e)
    then show ?thesis by simp
  next
    case (mkdir_error out e)
    then show ?thesis by simp
  next
    case (continue out fs1 evs2 ts2)
    from Cons.IH [OF continue(3)] continue(1,4,5) show ?thesis by simp
  qed
qed

lemma prepare_tasks_events:
  "prepare_tasks deny input_dir output_dir files fs = (r, fs', evs, ts)
     \<Longrightarrow> submitted_of evs = [] \<and> results_of evs = []"
proof (induction files arbitrary: fs r fs' evs ts)
  case Nil
  then show ?case by simp
next
  case (Cons file_path files)
  from Cons.prems(1) show ?case
  proof (cases rule: prepare_tasks_cases)
    case (path_error e)
    then show ?thesis by simp
  next
    case (mkdir_error out e)
    then show ?thesis by simp
  next
    case (continue out fs1 evs2 ts2)
    from Cons.IH [OF continue(3)] continue(4) show ?thesis by simp
  qed
qed

lemma prepare_tasks_append:
  assumes "prepare_tasks deny input_dir output_dir pre fs = (None, fs1, evs1, ts1)"
    and "prepare_tasks deny input_dir output_dir post fs1 = (r, fs2, evs2, ts2)"
  shows "prepare_tasks deny input_dir output_dir (pre @ post) fs
           = (r, fs2, evs1 @ evs2, ts1 @ ts2)"
  using assms
proof (induction pre arbitrary: fs evs1 ts1)
  case Nil
  then show ?case by simp
next
  case (Cons file_path files)
  from Cons.prems(1) show ?case
  proof (cases rule: prepare_tasks_cases)
    case (path_error e)
    then show ?thesis by simp
  next
    case (mkdir_error out e)
    then show ?thesis by simp
  next
    case (continue out fs' evs' ts')
    from Cons.IH [OF continue(3) Cons.prems(2)] continue(1,2,4,5) show ?thesis by simp
  qed
qed

subsection \<open>Traces and runs\<close>

lemma mkdirs_of_append: "mkdirs_of (xs @ ys) = mkdirs_of xs @ mkdirs_of ys"
  by (induction xs rule: mkdirs_of.induct) simp_all

lemma submitted_of_append: "submitted_of (xs @ ys) = submitted_of xs @ submitted_of ys"
  by (induction xs rule: submitted_of.induct) simp_all

lemma results_of_append: "results_of (xs @ ys) = results_of xs @ results_of ys"
  by (induction xs rule: results_of.induct) simp_all

lemma of_Submits:
  "submitted_of (map (\<lambda>t. Submit (fst t) (snd t)) ts) = ts"
  "results_of (map (\<lambda>t. Submit (fst t) (snd t)) ts) = []"
  "mkdirs_of (map (\<lambda>t. Submit (fst t) (snd t)) ts) = []"
  by (induction ts) simp_all

lemma of_Prints:
  "submitted_of (map Print ls) = []"
  "results_of (map Print ls) = []"
  "mkdirs_of (map Print ls) = []"
  by (induction ls) simp_all

lemma of_printed_events:
  "submitted_of (printed_events f) = []"
  "results_of (printed_events f) = []"
  "mkdirs_of (printed_events f) = []"
  by (simp_all add: printed_events_def of_Prints case_prod_beta split: sum.splits)

lemma of_printed:
  "submitted_of (concat (map printed_events fs)) = []"
  "results_of (concat (map printed_events fs)) = []"
  "mkdirs_of (concat (map printed_events fs)) = []"
  by (induction fs)
     (simp_all add: submitted_of_append results_of_append mkdirs_of_append of_printed_events)

lemma aggregate_events:
  "aggregate dn c = (r, c', evs) \<Longrightarrow> submitted_of evs = [] \<and> mkdirs_of evs = []"
proof (induction dn c arbitrary: r c' evs rule: aggregate.induct)
  case (1 successful failed)
  then show ?case by simp
next
  case (2 task e rest successful failed)
  then show ?case by (auto simp: of_printed)
next
  case (3 task success printed rest successful failed)
  obtain r2 c2 evs2 where rec: "aggregate rest
      (if success then (successful + 1, failed) else (successful, failed + 1)) = (r2, c2, evs2)"
    by (cases "aggregate rest
      (if success then (successful + 1, failed) else (successful, failed + 1))")
  from "3.IH" [OF rec] have "submitted_of evs2 = [] \<and> mkdirs_of evs2 = []" .
  moreover from "3.prems" rec
  have "evs = map Print printed @ Completed (fst task) (snd task) success # evs2" by simp
  ultimately show ?case
    by (simp add: submitted_of_append mkdirs_of_append of_Prints)
qed

lemma aggregate_counts:
  "aggregate dn (s, f) = (None, c', evs) \<Longrightarrow>
     c' = (s + length (filter id (results_of evs)), f + length (filter Not (results_of evs)))
     \<and> length (results_of evs) = length dn"
proof (induction dn "(s, f)" arbitrary: s f c' evs rule: aggregate.induct)
  case (1 successful failed)
  then show ?case by simp
next
  case (2 task e rest successful failed)
  then show ?case by simp
next
  case (3 task success printed rest successful failed)
  obtain r2 c2 evs2 where rec: "aggregate rest
      (if success then (successful + 1, failed) else (successful, failed + 1)) = (r2, c2, evs2)"
    by (cases "aggregate rest
      (if success then (successful + 1, failed) else (successful, failed + 1))")
  from "3.prems" rec have r2: "r2 = None" and c: "c' = c2"
    and evs: "evs = map Print printed @ Completed (fst task) (snd task) success # evs2"
    by simp_all
  have res: "results_of evs = success # results_of evs2"
    by (simp add: evs results_of_append of_Prints)
  show ?case
  proof (cases success)
    case True
    with rec r2 have "aggregate rest (successful + 1, failed) = (None, c2, evs2)" by simp
    from "3.hyps" [OF _ this] True
    have "c2 = (successful + 1 + length (filter id (results_of evs2)),
                failed + length (filter Not (results_of evs2)))
          \<and> length (results_of evs2) = length rest" by (simp add: id_def)
    with True c res show ?thesis by (simp add: id_def)
  next
    case False
    with rec r2 have "aggregate rest (successful, failed + 1) = (None, c2, evs2)" by simp
    from "3.hyps" [OF _ this] False
    have "c2 = (successful + length (filter id (results_of evs2)),
                failed + 1 + length (filter Not (results_of evs2)))
          \<and> length (results_of evs2) = length rest" by (simp add: id_def)
    with False c res show ?thesis by (simp add: id_def)
  qed
qed

lemma permuted_length:
  assumes "mset ys = mset xs"
  shows "length ys = length xs"
  using assms by (metis size_mset)

lemma filter_id_Not_length: "length (filter id bs) + length (filter Not bs) = length bs"
  by (induction bs) simp_all

lemma process_directory_root_error:
  assumes "mkdir deny [] fs0 output_dir = (Some e, fs1)"
  shows "process_directory fl encodable pil wnd deny as_completed
           fs0 input_dir output_dir conversion_type max_workers
    = \<lparr>final_fs = fs1, trace = [Mkdir output_dir], raised = Some e, tally = None\<rparr>"
  using assms by (simp add: process_directory_def)

lemma process_directory_nothing_found:
  assumes "mkdir deny [] fs0 output_dir = (None, fs1)"
    and "discover fl fs1 input_dir conversion_type = []"
  shows "process_directory fl encodable pil wnd deny as_completed
           fs0 input_dir output_dir conversion_type max_workers
    = \<lparr>final_fs = fs1, trace = [Mkdir output_dir, Print (none_found_line conversion_type)],
       raised = None, tally = None\<rparr>"
  using assms by (simp add: process_directory_def)

lemma process_directory_prepare_error:
  assumes "mkdir deny [] fs0 output_dir = (None, fs1)"
    and "discover fl fs1 input_dir conversion_type \<noteq> []"
    and "prepare_tasks deny input_dir output_dir (discover fl fs1 input_dir conversion_type) fs1
         = (Some e, fs2, evs, ts)"
  shows "process_directory fl encodable pil wnd deny as_completed
           fs0 input_dir output_dir conversion_type max_workers
    = \<lparr>final_fs = fs2,
       trace = Mkdir output_dir
         # Print (found_line (length (discover fl fs1 input_dir conversion_type)) conversion_type)
         # evs,
       raised = Some e, tally = None\<rparr>"
  using assms by (simp add: process_directory_def Let_def)

lemma process_directory_pool_error:
  assumes "mkdir deny [] fs0 output_dir = (None, fs1)"
    and "discover fl fs1 input_dir conversion_type \<noteq> []"
    and "prepare_tasks deny input_dir output_dir (discover fl fs1 input_dir conversion_type) fs1
         = (None, fs2, evs, ts)"
    and "max_workers \<le> 0"
  shows "process_directory fl encodable pil wnd deny as_completed
           fs0 input_dir output_dir conversion_type max_workers
    = \<lparr>final_fs = fs2,
       trace = Mkdir output_dir
         # Print (found_line (length (discover fl fs1 input_dir conversion_type)) conversion_type)
         # evs,
       raised = Some (ValueError ''max_workers must be greater than 0''), tally = None\<rparr>"
  using assms by (simp add: process_directory_def Let_def)

lemma process_directory_future_error:
  assumes "mkdir deny [] fs0 output_dir = (None, fs1)"
    and "discover fl fs1 input_dir conversion_type \<noteq> []"
    and "prepare_tasks deny input_dir output_dir (discover fl fs1 input_dir conversion_type) fs1
         = (None, fs2, evs, ts)"
    and "0 < max_workers"
    and "aggregate (as_completed (run_tasks fl
            (if conversion_type = ''HEIC'' then convert_heic_to_png pil encodable
             else convert_cr2_to_png wnd encodable) ts)) (0, 0) = (Some e, counters, collected)"
  shows "process_directory fl encodable pil wnd deny as_completed
           fs0 input_dir output_dir conversion_type max_workers
    = \<lparr>final_fs = fs2,
       trace = Mkdir output_dir
         # Print (found_line (length (discover fl fs1 input_dir conversion_type)) conversion_type)
         # evs
         @ map (\<lambda>t. Submit (fst t) (snd t)) ts
         @ collected,
       raised = Some e, tally = None\<rparr>"
  using assms by (simp add: process_directory_def Let_def)

lemma process_directory_completed:
  assumes "mkdir deny [] fs0 output_dir = (None, fs1)"
    and "discover fl fs1 input_dir conversion_type \<noteq> []"
    and "prepare_tasks deny input_dir output_dir (discover fl fs1 input_dir conversion_type) fs1
         = (None, fs2, evs, ts)"
    and "0 < max_workers"
    and "aggregate (as_completed (run_tasks fl
            (if conversion_type = ''HEIC'' then convert_heic_to_png pil encodable
             else convert_cr2_to_png wnd encodable) ts)) (0, 0) = (None, counters, collected)"
  shows "process_directory fl encodable pil wnd deny as_completed
           fs0 input_dir output_dir conversion_type max_workers
    = \<lparr>final_fs = fs2,
       trace = Mkdir output_dir
         # Print (found_line (length (discover fl fs1 input_dir conversion_type)) conversion_type)
         # evs
         @ map (\<lambda>t. Submit (fst t) (snd t)) ts
         @ collected
         @ map Print (summary_lines counters),
       raised = None, tally = Some counters\<rparr>"
  using assms by (simp add: process_directory_def Let_def)

lemma process_directory_cases:
  fixes pil :: "'i pillow" and wnd :: "'w wand"
  obtains (root_error) e fs1 where "mkdir deny [] fs0 output_dir = (Some e, fs1)"
  | (nothing_found) fs1 where "mkdir deny [] fs0 output_dir = (None, fs1)"
      "discover fl fs1 input_dir conversion_type = []"
  | (prepare_error) fs1 e fs2 evs ts where "mkdir deny [] fs0 output_dir = (None, fs1)"
      "discover fl fs1 input_dir conversion_type \<noteq> []"
      "prepare_tasks deny input_dir output_dir (discover fl fs1 input_dir conversion_type) fs1
         = (Some e, fs2, evs, ts)"
  | (pool_error) fs1 fs2 evs ts where "mkdir deny [] fs0 output_dir = (None, fs1)"
      "discover fl fs1 input_dir conversion_type \<noteq> []"
      "prepare_tasks deny input_dir output_dir (discover fl fs1 input_dir conversion_type) fs1
         = (None, fs2, evs, ts)"
      "(max_workers :: int) \<le> 0"
  | (future_error) fs1 fs2 evs ts e counters collected
    where "mkdir deny [] fs0 output_dir = (None, fs1)"
      "discover fl fs1 input_dir conversion_type \<noteq> []"
      "prepare_tasks deny input_dir output_dir (discover fl fs1 input_dir conversion_type) fs1
         = (None, fs2, evs, ts)"
      "0 < max_workers"
      "aggregate (as_completed (run_tasks fl
            (if conversion_type = ''HEIC'' then convert_heic_to_png pil encodable
             else convert_cr2_to_png wnd encodable) ts)) (0, 0) = (Some e, counters, collected)"
  | (completed) fs1 fs2 evs ts counters collected
    where "mkdir deny [] fs0 output_dir = (None, fs1)"
      "discover fl fs1 input_dir conversion_type \<noteq> []"
      "prepare_tasks deny input_dir output_dir (discover fl fs1 input_dir conversion_type) fs1
         = (None, fs2, evs, ts)"
      "0 < max_workers"
      "aggregate (as_completed (run_tasks fl
            (if conversion_type = ''HEIC'' then convert_heic_to_png pil encodable
             else convert_cr2_to_png wnd encodable) ts)) (0, 0) = (None, counters, collected)"
proof -
  obtain m fs1 where mk: "mkdir deny [] fs0 output_dir = (m, fs1)"
    by (cases "mkdir deny [] fs0 output_dir")
  obtain p fs2 evs ts
    where pr: "prepare_tasks deny input_dir output_dir (discover fl fs1 input_dir conversion_type) fs1
       = (p, fs2, evs, ts)"
    by (cases "prepare_tasks deny input_dir output_dir (discover fl fs1 input_dir conversion_type) fs1")
  obtain a counters collected
    where ag: "aggregate (as_completed (run_tasks fl
            (if conversion_type = ''HEIC'' then convert_heic_to_png pil encodable
             else convert_cr2_to_png wnd encodable) ts)) (0, 0) = (a, counters, collected)"
    by (cases "aggregate (as_completed (run_tasks fl
            (if conversion_type = ''HEIC'' then convert_heic_to_png pil encodable
             else convert_cr2_to_png wnd encodable) ts)) (0, 0)")
  show thesis
  proof (cases m)
    case (Some e)
    with mk show thesis by (simp add: root_error)
  next
    case None
    note m = this
    show thesis
    proof (cases "discover fl fs1 input_dir conversion_type = []")
      case True
      with mk m show thesis by (simp add: nothing_found)
    next
      case False
      show thesis
      proof (cases p)
        case (Some e)
        with mk m False pr show thesis by (simp add: prepare_error)
      next
        case None
        note p = this
        show thesis
        proof (cases "max_workers \<le> 0")
          case True
          with mk m False pr p show thesis by (simp add: pool_error)
        next
          case pos: False
          then have pos': "0 < max_workers" by simp
          show thesis
          proof (cases a)
            case (Some e)
            show thesis
              by (rule future_error [OF mk [unfolded m] False pr [unfolded p] pos'
                    ag [unfolded Some]])
          next
            case None
            show thesis
              by (rule completed [OF mk [unfolded m] False pr [unfolded p] pos'
                    ag [unfolded None]])
          qed
        qed
      qed
    qed
  qed
qed

subsection \<open>The adapters\<close>





section \<open>The claims\<close>

subsection \<open>The output path\<close>








subsection \<open>Discovery\<close>




subsection \<open>The adapters\<close>




subsection \<open>The tally\<close>

text \<open>
  C1. On either flavour, in every run that discovers at least one file and completes, whatever the order
  in which the pool hands the finished tasks back: one task was submitted per
  discovered file, one result was collected per task, the successful counter is the
  number of \<open>True\<close> results and the failed counter the number of \<open>False\<close> results, so
  the two counters add up to the number of dispatched tasks.
\<close>

theorem tally_counts_every_task:
  fixes pil :: "'i pillow" and wnd :: "'w wand"
  assumes perm: "\<And>xs. mset (as_completed xs) = mset xs"
    and r: "r = process_directory fl encodable pil wnd deny as_completed
                  fs0 input_dir output_dir conversion_type max_workers"
    and files: "files = discover fl (snd (mkdir deny [] fs0 output_dir)) input_dir conversion_type"
    and found: "files \<noteq> []"
    and finished: "raised r = None"
  shows "\<exists>successful failed. tally r = Some (successful, failed)
           \<and> successful + failed = length (submitted_of (trace r))
           \<and> map fst (submitted_of (trace r)) = files
           \<and> length (results_of (trace r)) = length files
           \<and> successful = length (filter id (results_of (trace r)))
           \<and> failed = length (filter Not (results_of (trace r)))"
proof (cases rule: process_directory_cases
    [where deny = deny and ?fs0.0 = fs0 and output_dir = output_dir and input_dir = input_dir
       and conversion_type = conversion_type and max_workers = max_workers and fl = fl
       and pil = pil and wnd = wnd and encodable = encodable and as_completed = as_completed])
  case (root_error e fs1)
  from finished show ?thesis unfolding r
    by (simp add: process_directory_root_error [OF root_error])
next
  case (nothing_found fs1)
  with files found show ?thesis by simp
next
  case (prepare_error fs1 e fs2 evs ts)
  from finished show ?thesis unfolding r
    by (simp add: process_directory_prepare_error [OF prepare_error])
next
  case (pool_error fs1 fs2 evs ts)
  from finished show ?thesis unfolding r
    by (simp add: process_directory_pool_error [OF pool_error])
next
  case (future_error fs1 fs2 evs ts e counters collected)
  from finished show ?thesis unfolding r
    by (simp add: process_directory_future_error
        [where as_completed = as_completed and pil = pil and wnd = wnd
           and encodable = encodable, OF future_error])
next
  case (completed fs1 fs2 evs ts counters collected)
  define cf where "cf = (if conversion_type = ''HEIC'' then convert_heic_to_png pil encodable
                        else convert_cr2_to_png wnd encodable)"
  define dn where "dn = as_completed (run_tasks fl cf ts)"
  define bs where "bs = results_of collected"
  have ag: "aggregate dn (0, 0) = (None, counters, collected)"
    using completed(5) by (simp add: dn_def cf_def)
  have eq: "r = \<lparr>final_fs = fs2,
       trace = Mkdir output_dir
         # Print (found_line (length (discover fl fs1 input_dir conversion_type)) conversion_type)
         # evs
         @ map (\<lambda>t. Submit (fst t) (snd t)) ts
         @ collected
         @ map Print (summary_lines counters),
       raised = None, tally = Some counters\<rparr>"
    unfolding r
    by (rule process_directory_completed
        [where as_completed = as_completed and pil = pil and wnd = wnd
           and encodable = encodable, OF completed])
  have fs1: "fs1 = snd (mkdir deny [] fs0 output_dir)" using completed(1) by simp
  have evs: "submitted_of evs = []" "results_of evs = []"
    using prepare_tasks_events [OF completed(3)] by simp_all
  have col: "submitted_of collected = []"
    using aggregate_events [OF ag] by simp
  have ts: "map fst ts = files"
    using prepare_tasks_files [OF completed(3)] files fs1 by simp
  have sub: "submitted_of (trace r) = ts"
    by (simp add: eq submitted_of_append evs col of_Submits of_Prints)
  have res: "results_of (trace r) = bs"
    by (simp add: eq results_of_append evs of_Submits of_Prints bs_def)
  have cnt: "counters = (length (filter id bs), length (filter Not bs))"
    and lbs: "length bs = length dn"
    using aggregate_counts [OF ag] by (simp_all add: bs_def)
  have "mset dn = mset (run_tasks fl cf ts)" unfolding dn_def by (rule perm)
  then have "length dn = length (run_tasks fl cf ts)" by (rule permuted_length)
  with lbs have len: "length bs = length ts" by (simp add: run_tasks_def)
  have tl: "tally r = Some (length (filter id bs), length (filter Not bs))"
    by (simp add: eq cnt)
  from ts have lts: "length ts = length files" by (metis length_map)
  show ?thesis
    using tl sub res len lts ts filter_id_Not_length [of bs] by simp
qed

text \<open>
  The statement at two photos of which the decoder rejects one, with the futures
  handed back in reverse order: one success, one failure, two tasks.
\<close>

theorem tally_counts_every_task_witness:
  "(\<forall>xs :: finished list. mset (rev xs) = mset xs)
   \<and> discover PosixFlavour (snd (mkdir allow_all [] fs_pair [''out''])) [''in''] ''HEIC'' \<noteq> []
   \<and> raised (process_directory PosixFlavour accept_all pil_corrupt wnd_full allow_all rev
        fs_pair [''in''] [''out''] ''HEIC'' 16) = None
   \<and> tally (process_directory PosixFlavour accept_all pil_corrupt wnd_full allow_all rev
        fs_pair [''in''] [''out''] ''HEIC'' 16) = Some (1, 1)
   \<and> length (submitted_of (trace (process_directory PosixFlavour accept_all pil_corrupt wnd_full
        allow_all rev fs_pair [''in''] [''out''] ''HEIC'' 16))) = 1 + 1"
proof -
  define r where "r = process_directory PosixFlavour accept_all pil_corrupt wnd_full allow_all rev
        fs_pair [''in''] [''out''] ''HEIC'' 16"
  have perm: "\<And>xs :: finished list. mset (rev xs) = mset xs" by simp
  have found: "discover PosixFlavour (snd (mkdir allow_all [] fs_pair [''out''])) [''in''] ''HEIC'' \<noteq> []"
    by (simp add: fs_pair_def allow_all_def discover_def glob_def extensions_def)
  have fin: "raised r = None" unfolding r_def by code_simp
  have tl: "tally r = Some (1, 1)" unfolding r_def by code_simp
  from tally_counts_every_task [OF perm r_def refl found fin] tl
  have "length (submitted_of (trace r)) = 1 + 1" by auto
  with perm found fin tl show ?thesis unfolding r_def by blast
qed

subsection \<open>A run that finds nothing\<close>

text \<open>
  C6. When discovery finds no matching file, \<^verbatim>\<open>process_directory\<close> prints its
  notice and returns: nothing is submitted to the pool, no result is collected, no
  tally is produced, and no exception is raised.
\<close>

theorem no_files_short_circuits:
  fixes pil :: "'i pillow" and wnd :: "'w wand"
  assumes "mkdir deny [] fs0 output_dir = (None, fs1)"
    and "discover fl fs1 input_dir conversion_type = []"
    and "r = process_directory fl encodable pil wnd deny as_completed
               fs0 input_dir output_dir conversion_type max_workers"
  shows "trace r = [Mkdir output_dir, Print (''Nenhum arquivo '' @ conversion_type @ '' encontrado!'')]
       \<and> submitted_of (trace r) = [] \<and> results_of (trace r) = []
       \<and> tally r = None \<and> raised r = None \<and> final_fs r = fs1"
  unfolding assms(3)
  by (simp add: process_directory_nothing_found [OF assms(1,2)] none_found_line_def)

text \<open>The statement at a tree of HEIC photos searched for CR2 files.\<close>

theorem no_files_short_circuits_witness:
  "mkdir allow_all [] fs_pair [''out'']
     = (None, Dir True [(''in'', Dir True [(''good.heic'', File), (''bad.heic'', File)]),
                        (''out'', Dir True [])])
   \<and> discover PosixFlavour
        (Dir True [(''in'', Dir True [(''good.heic'', File), (''bad.heic'', File)]),
                   (''out'', Dir True [])]) [''in''] ''CR2'' = []
   \<and> trace (process_directory PosixFlavour accept_all pil_corrupt wnd_full allow_all rev
        fs_pair [''in''] [''out''] ''CR2'' 16)
       = [Mkdir [''out''], Print ''Nenhum arquivo CR2 encontrado!'']
   \<and> tally (process_directory PosixFlavour accept_all pil_corrupt wnd_full allow_all rev
        fs_pair [''in''] [''out''] ''CR2'' 16)
       = None"
proof -
  have mk: "mkdir allow_all [] fs_pair [''out'']
      = (None, Dir True [(''in'', Dir True [(''good.heic'', File), (''bad.heic'', File)]),
                         (''out'', Dir True [])])"
    by (simp add: fs_pair_def allow_all_def)
  have d: "discover PosixFlavour
        (Dir True [(''in'', Dir True [(''good.heic'', File), (''bad.heic'', File)]),
                   (''out'', Dir True [])]) [''in''] ''CR2'' = []"
    by (simp add: discover_def glob_def extensions_def)
  from no_files_short_circuits [OF mk d refl, where pil = pil_corrupt and wnd = wnd_full
      and encodable = accept_all and as_completed = rev and max_workers = 16] mk d
  show ?thesis by simp
qed

subsection \<open>Output directories\<close>

text \<open>
  C7 (as amended). If creating the output parent directory of one task fails, after
  the root was created and the tasks before it were prepared, the error leaves
  \<^verbatim>\<open>process_directory\<close>: the run ends with that exception, no task at all is
  submitted to the pool, no result is collected and no tally is produced.
\<close>

theorem parent_mkdir_failure_aborts:
  fixes pil :: "'i pillow" and wnd :: "'w wand"
  assumes root: "mkdir deny [] fs0 output_dir = (None, fs1)"
    and files: "discover fl fs1 input_dir conversion_type = before @ file_path # rest"
    and pre: "prepare_tasks deny input_dir output_dir before fs1 = (None, fs2, evs, ts)"
    and out: "output_path_of input_dir output_dir file_path = Inr output_path"
    and fail: "mkdir deny [] fs2 (butlast output_path) = (Some e, fs3)"
    and r: "r = process_directory fl encodable pil wnd deny as_completed
               fs0 input_dir output_dir conversion_type max_workers"
  shows "raised r = Some e \<and> tally r = None
       \<and> submitted_of (trace r) = [] \<and> results_of (trace r) = []"
proof -
  have "prepare_tasks deny input_dir output_dir (file_path # rest) fs2
      = (Some e, fs3, [Mkdir (butlast output_path)], [])"
    using out fail by simp
  from prepare_tasks_append [OF pre this]
  have p: "prepare_tasks deny input_dir output_dir (discover fl fs1 input_dir conversion_type) fs1
      = (Some e, fs3, evs @ [Mkdir (butlast output_path)], ts @ [])"
    using files by simp
  have ne: "discover fl fs1 input_dir conversion_type \<noteq> []" using files by simp
  have evs: "submitted_of evs = []" "results_of evs = []"
    using prepare_tasks_events [OF pre] by simp_all
  show ?thesis unfolding r
    by (simp add: process_directory_prepare_error [OF root ne p]
        submitted_of_append results_of_append evs)
qed

text \<open>
  The amended statement at two photos, where a regular file \<^verbatim>\<open>out/a\<close> stands in the
  place of the second photo's output directory.
\<close>

text \<open>
  The amended statement at two photos, where a regular file \<^verbatim>\<open>out/a\<close> stands in the
  place of the second photo's output directory.
\<close>

theorem parent_mkdir_failure_aborts_witness:
  "mkdir allow_all [] fs_blocked [''out''] = (None, fs_blocked)
   \<and> discover PosixFlavour fs_blocked [''in''] ''HEIC'' = [[''in'', ''y.heic'']] @ [''in'', ''a'', ''x.heic''] # []
   \<and> prepare_tasks allow_all [''in''] [''out''] [[''in'', ''y.heic'']] fs_blocked
        = (None, fs_blocked, [Mkdir [''out'']], [([''in'', ''y.heic''], [''out'', ''y.png''])])
   \<and> output_path_of [''in''] [''out''] [''in'', ''a'', ''x.heic''] = Inr [''out'', ''a'', ''x.png'']
   \<and> mkdir allow_all [] fs_blocked (butlast [''out'', ''a'', ''x.png''])
        = (Some (FileExistsError [''out'', ''a'']), fs_blocked)
   \<and> raised (process_directory PosixFlavour accept_all pil_corrupt wnd_full allow_all rev fs_blocked [''in''] [''out'']
        ''HEIC'' 16) = Some (FileExistsError [''out'', ''a''])
   \<and> submitted_of (trace (process_directory PosixFlavour accept_all pil_corrupt wnd_full allow_all rev fs_blocked [''in'']
        [''out''] ''HEIC'' 16)) = []"
proof -
  have root: "mkdir allow_all [] fs_blocked [''out''] = (None, fs_blocked)"
    by (simp add: fs_blocked_def allow_all_def)
  have files: "discover PosixFlavour fs_blocked [''in''] ''HEIC''
      = [[''in'', ''y.heic'']] @ [''in'', ''a'', ''x.heic''] # []"
    by (simp add: fs_blocked_def discover_def glob_def extensions_def)
  have out1: "output_path_of [''in''] [''out''] [''in'', ''y.heic''] = Inr [''out'', ''y.png'']"
    by (simp add: output_path_of_def relative_to_def with_suffix_def path_suffix_def)
  have pre: "prepare_tasks allow_all [''in''] [''out''] [[''in'', ''y.heic'']] fs_blocked
        = (None, fs_blocked, [Mkdir [''out'']], [([''in'', ''y.heic''], [''out'', ''y.png''])])"
    using out1 root by simp
  have out: "output_path_of [''in''] [''out''] [''in'', ''a'', ''x.heic'']
      = Inr [''out'', ''a'', ''x.png'']"
    by (simp add: output_path_of_def relative_to_def with_suffix_def path_suffix_def)
  have fail: "mkdir allow_all [] fs_blocked (butlast [''out'', ''a'', ''x.png''])
        = (Some (FileExistsError [''out'', ''a'']), fs_blocked)"
    by (simp add: fs_blocked_def allow_all_def)
  from parent_mkdir_failure_aborts [OF root files pre out fail refl,
      where pil = pil_corrupt and wnd = wnd_full and as_completed = rev and max_workers = 16
        and encodable = accept_all]
    root files pre out fail
  show ?thesis by simp
qed

text \<open>
  C7 as stated fails at that input: two files are discovered and the first one could
  be converted, yet the failing \<^verbatim>\<open>mkdir\<close> of \<^verbatim>\<open>out/a\<close> ends the whole run, with
  nothing dispatched and no tally.
\<close>

text \<open>
  C7 as stated fails at that input: two files are discovered and the first one could
  be converted, yet the failing \<^verbatim>\<open>mkdir\<close> of \<^verbatim>\<open>out/a\<close> ends the whole run, with
  nothing dispatched and no tally.
\<close>

theorem parent_mkdir_failure_counterexample:
  "discover PosixFlavour (snd (mkdir allow_all [] fs_blocked [''out''])) [''in''] ''HEIC''
      = [[''in'', ''y.heic''], [''in'', ''a'', ''x.heic'']]
   \<and> fst (mkdir allow_all [] fs_blocked [''out'']) = None
   \<and> fst (mkdir allow_all [] fs_blocked [''out'', ''a'']) = Some (FileExistsError [''out'', ''a''])
   \<and> raised (process_directory PosixFlavour accept_all pil_corrupt wnd_full allow_all rev fs_blocked [''in''] [''out'']
        ''HEIC'' 16) = Some (FileExistsError [''out'', ''a''])
   \<and> tally (process_directory PosixFlavour accept_all pil_corrupt wnd_full allow_all rev fs_blocked [''in''] [''out'']
        ''HEIC'' 16) = None
   \<and> submitted_of (trace (process_directory PosixFlavour accept_all pil_corrupt wnd_full allow_all rev fs_blocked [''in'']
        [''out''] ''HEIC'' 16)) = []
   \<and> results_of (trace (process_directory PosixFlavour accept_all pil_corrupt wnd_full allow_all rev fs_blocked [''in'']
        [''out''] ''HEIC'' 16)) = []"
  by (simp add: process_directory_def fs_blocked_def allow_all_def discover_def glob_def
      extensions_def output_path_of_def relative_to_def with_suffix_def path_suffix_def Let_def)

text \<open>
  C8. In a run that completes, the parent directory of every submitted task's output
  path exists in the file system in which the tasks are dispatched; the trace splits
  into a part with every \<^verbatim>\<open>mkdir\<close> and no submission followed by a part with every
  submission and no \<^verbatim>\<open>mkdir\<close>; and directory creation is idempotent: creating a
  directory that exists raises nothing and changes nothing, in particular for every
  directory the run asked for, so a second run does not fail on the directories
  the first one left.
\<close>


text \<open>The statement at the album, whose output directory \<^verbatim>\<open>out/a\<close> the run creates.\<close>


text \<open>
  C10. The first action of every invocation is the \<^verbatim>\<open>mkdir\<close> of the output root.
  When it succeeds, the root exists in the file system that discovery reads and in
  the one the run leaves, also when no file is found and the run returns without a
  tally; when it fails, the run ends with its exception before discovery.
\<close>

text \<open>
  C10. The first action of every invocation is the \<^verbatim>\<open>mkdir\<close> of the output root.
  When it succeeds, the root exists in the file system that discovery reads and in
  the one the run leaves, also when no file is found and the run returns without a
  tally; when it fails, the run ends with its exception before discovery.
\<close>

theorem output_root_created_first:
  fixes pil :: "'i pillow" and wnd :: "'w wand"
  assumes r: "r = process_directory fl encodable pil wnd deny as_completed
               fs0 input_dir output_dir conversion_type max_workers"
  shows "(\<exists>rest. trace r = Mkdir output_dir # rest)
       \<and> (fst (mkdir deny [] fs0 output_dir) = None \<longrightarrow>
             is_dir (snd (mkdir deny [] fs0 output_dir)) output_dir
             \<and> is_dir (final_fs r) output_dir)
       \<and> (fst (mkdir deny [] fs0 output_dir) = None
            \<and> discover fl (snd (mkdir deny [] fs0 output_dir)) input_dir conversion_type = [] \<longrightarrow>
             final_fs r = snd (mkdir deny [] fs0 output_dir) \<and> raised r = None \<and> tally r = None)
       \<and> (fst (mkdir deny [] fs0 output_dir) \<noteq> None \<longrightarrow>
             raised r = fst (mkdir deny [] fs0 output_dir) \<and> trace r = [Mkdir output_dir])"
proof (cases rule: process_directory_cases
    [where deny = deny and ?fs0.0 = fs0 and output_dir = output_dir and input_dir = input_dir
       and conversion_type = conversion_type and max_workers = max_workers and fl = fl
       and pil = pil and wnd = wnd and encodable = encodable and as_completed = as_completed])
  case (root_error e fs1)
  then show ?thesis unfolding r
    by (simp add: process_directory_root_error [OF root_error])
next
  case (nothing_found fs1)
  from mkdir_creates [of deny "[]" fs0 output_dir] nothing_found(1)
  have "is_dir fs1 output_dir" by simp
  with nothing_found show ?thesis unfolding r
    by (simp add: process_directory_nothing_found [OF nothing_found])
next
  case (prepare_error fs1 e fs2 evs ts)
  from mkdir_creates [of deny "[]" fs0 output_dir] prepare_error(1)
  have root: "is_dir fs1 output_dir" by simp
  with prepare_error(3) have "is_dir fs2 output_dir" by (rule prepare_keeps_dirs)
  with root prepare_error show ?thesis unfolding r
    by (simp add: process_directory_prepare_error [OF prepare_error])
next
  case (pool_error fs1 fs2 evs ts)
  from mkdir_creates [of deny "[]" fs0 output_dir] pool_error(1)
  have root: "is_dir fs1 output_dir" by simp
  with pool_error(3) have "is_dir fs2 output_dir" by (rule prepare_keeps_dirs)
  with root pool_error show ?thesis unfolding r
    by (simp add: process_directory_pool_error [OF pool_error])
next
  case (future_error fs1 fs2 evs ts e counters collected)
  from mkdir_creates [of deny "[]" fs0 output_dir] future_error(1)
  have root: "is_dir fs1 output_dir" by simp
  with future_error(3) have "is_dir fs2 output_dir" by (rule prepare_keeps_dirs)
  with root future_error(1,2) show ?thesis unfolding r
    by (simp add: process_directory_future_error
        [where as_completed = as_completed and pil = pil and wnd = wnd
           and encodable = encodable, OF future_error])
next
  case (completed fs1 fs2 evs ts counters collected)
  from mkdir_creates [of deny "[]" fs0 output_dir] completed(1)
  have root: "is_dir fs1 output_dir" by simp
  with completed(3) have "is_dir fs2 output_dir" by (rule prepare_keeps_dirs)
  with root completed(1,2) show ?thesis unfolding r
    by (simp add: process_directory_completed
        [where as_completed = as_completed and pil = pil and wnd = wnd
           and encodable = encodable, OF completed])
qed

text \<open>
  The statement at an output root \<^verbatim>\<open>new/out\<close> that does not exist and a search
  that finds nothing.
\<close>

text \<open>
  The statement at an output root \<^verbatim>\<open>new/out\<close> that does not exist and a search
  that finds nothing.
\<close>

theorem output_root_created_first_witness:
  "fst (mkdir allow_all [] fs_pair [''new'', ''out'']) = None
   \<and> discover PosixFlavour (snd (mkdir allow_all [] fs_pair [''new'', ''out''])) [''in''] ''CR2'' = []
   \<and> \<not> is_dir fs_pair [''new'', ''out'']
   \<and> is_dir (final_fs (process_directory PosixFlavour accept_all pil_corrupt wnd_full allow_all rev fs_pair [''in'']
        [''new'', ''out''] ''CR2'' 16)) [''new'', ''out'']
   \<and> tally (process_directory PosixFlavour accept_all pil_corrupt wnd_full allow_all rev fs_pair [''in'']
        [''new'', ''out''] ''CR2'' 16) = None"
proof -
  have mk: "fst (mkdir allow_all [] fs_pair [''new'', ''out'']) = None"
    by (simp add: fs_pair_def allow_all_def)
  have d: "discover PosixFlavour (snd (mkdir allow_all [] fs_pair [''new'', ''out''])) [''in''] ''CR2'' = []"
    by (simp add: fs_pair_def allow_all_def discover_def glob_def extensions_def)
  have n: "\<not> is_dir fs_pair [''new'', ''out'']"
    by (simp add: fs_pair_def is_dir_def)
  from output_root_created_first [OF refl, where pil = pil_corrupt and wnd = wnd_full
      and fl = PosixFlavour and encodable = accept_all
      and deny = allow_all and as_completed = rev and ?fs0.0 = fs_pair and input_dir = "[''in'']"
      and output_dir = "[''new'', ''out'']" and conversion_type = "''CR2''" and max_workers = 16]
    mk d n
  show ?thesis by simp
qed

end
